theory Spec2Isabelle
  imports Complex_Main
begin

section \<open>MathItem.ts: locations, metrics and proto items\<close>

text \<open>
  The embedding follows \<^verbatim>\<open>src/mathjax3-ts/core/MathItem.ts\<close>.  Conventions:
  \<^item> an object type is a record; an optional field (\<^verbatim>\<open>n?: number\<close>) and a field that
    may hold \<^verbatim>\<open>null\<close> is an \<open>option\<close>, with \<open>None\<close> for absent or \<^verbatim>\<open>null\<close>;
  \<^item> the indices and state codes (\<^verbatim>\<open>number\<close>) are \<open>int\<close>, the pixel sizes and the scale
    of the metrics are \<open>real\<close>; no operation of the file computes with them, they are
    stored and compared only;
  \<^item> the types the file imports and never inspects are type variables: \<open>'jax\<close> for
    \<^verbatim>\<open>InputJax\<close>, \<open>'mml\<close> for \<^verbatim>\<open>MmlNode\<close>, \<open>'elem\<close> for the DOM's \<^verbatim>\<open>Text | Element\<close>,
    \<open>'val\<close> for the values (\<^verbatim>\<open>any\<close>) of an \<^verbatim>\<open>OptionList\<close>, \<open>'doc\<close> for \<^verbatim>\<open>MathDocument\<close>
    and \<open>'err\<close> for whatever a collaborator throws;
  \<^item> \<^verbatim>\<open>display\<close> is \<^verbatim>\<open>true\<close>, \<^verbatim>\<open>false\<close> or \<^verbatim>\<open>null\<close>: the constructor and \<^verbatim>\<open>protoItem\<close>
    replace an omitted argument by their default, so the field is never \<^verbatim>\<open>undefined\<close>;
  \<^item> an object literal \<^verbatim>\<open>{}\<close> is the empty map; objects are modelled by value, so a field
    that is assigned a new \<^verbatim>\<open>{}\<close> is a field that holds the empty map.
  Field names are the source's, prefixed where the name is an Isabelle keyword or too
  short to be a constant (\<^verbatim>\<open>i\<close>, \<^verbatim>\<open>n\<close>, \<^verbatim>\<open>end\<close>, \<^verbatim>\<open>_state\<close>, and the fields of
  \<^verbatim>\<open>ProtoItem\<close>, which would hide those of \<^verbatim>\<open>MathItem\<close>).
\<close>

record 'elem Location =
  loc_i :: "int option"
  loc_n :: "int option"
  delim :: "string option"
  node :: "'elem option"

text \<open>
  \<^verbatim>\<open>Metrics\<close>: the class starts from \<^verbatim>\<open>{} as Metrics\<close>, an object without any of the
  five fields, so each field is optional in the model.
\<close>

record Metrics =
  em :: "real option"
  ex :: "real option"
  containerWidth :: "real option"
  lineWidth :: "real option"
  scale :: "real option"

definition no_metrics :: Metrics where
  "no_metrics = \<lparr>em = None, ex = None, containerWidth = None, lineWidth = None, scale = None\<rparr>"

type_synonym 'val OptionList = "string \<rightharpoonup> 'val"

text \<open>\<^verbatim>\<open>BBox\<close> is declared as \<^verbatim>\<open>{}\<close> ("will be defined later"): an object of any shape.\<close>

type_synonym 'val BBox = "string \<rightharpoonup> 'val"

record 'elem ProtoItem =
  proto_math :: string
  proto_start :: "'elem Location"
  proto_end :: "'elem Location"
  proto_open :: "string option"
  proto_close :: "string option"
  proto_n :: "int option"
  proto_display :: "bool option"

text \<open>
  A parameter with a default value (\<^verbatim>\<open>display: boolean = null\<close>) is either omitted by the
  caller or given; the default stands in for the omitted one.
\<close>

datatype 'a optarg = Omitted | Given 'a

fun default_arg :: "'a \<Rightarrow> 'a optarg \<Rightarrow> 'a" where
  "default_arg d Omitted = d"
| "default_arg d (Given x) = x"

text \<open>
  \<^verbatim>\<open>protoItem(open, math, close, n, start, end, display = null)\<close>.  The two locations are
  the object literals \<^verbatim>\<open>{n: start}\<close> and \<^verbatim>\<open>{n: end}\<close>: only \<open>n\<close> is present.
\<close>

definition protoItem ::
  "string \<Rightarrow> string \<Rightarrow> string \<Rightarrow> int \<Rightarrow> int \<Rightarrow> int \<Rightarrow> bool option optarg
     \<Rightarrow> 'elem ProtoItem" where
  "protoItem opn math' cls n' start' end' display' =
     \<lparr>proto_math = math',
      proto_start = \<lparr>loc_i = None, loc_n = Some start', delim = None, node = None\<rparr>,
      proto_end = \<lparr>loc_i = None, loc_n = Some end', delim = None, node = None\<rparr>,
      proto_open = Some opn, proto_close = Some cls, proto_n = Some n',
      proto_display = default_arg None display'\<rparr>"

section \<open>The MathItem class\<close>

definition UNPROCESSED :: int where "UNPROCESSED = 0"
definition COMPILED :: int where "COMPILED = 1"
definition TYPESET :: int where "TYPESET = 2"
definition INSERTED :: int where "INSERTED = 3"

record ('jax, 'mml, 'elem, 'val) MathItem =
  math :: string
  inputJax :: 'jax
  display :: "bool option"
  start :: "'elem Location"
  end_loc :: "'elem Location"
  root :: "'mml option"
  typesetRoot :: "'elem option"
  item_state :: int
  metrics :: Metrics
  bbox :: "'val BBox"
  inputData :: "'val OptionList"
  outputData :: "'val OptionList"

definition origin :: "'elem Location" where
  "origin = \<lparr>loc_i = Some 0, loc_n = Some 0, delim = Some [], node = None\<rparr>"

text \<open>The constructor, with the field initialisers of the class.\<close>

definition AbstractMathItem ::
  "string \<Rightarrow> 'jax \<Rightarrow> bool option optarg \<Rightarrow> 'elem Location optarg \<Rightarrow> 'elem Location optarg
     \<Rightarrow> ('jax, 'mml, 'elem, 'val) MathItem" where
  "AbstractMathItem math' jax display' start' end' =
     \<lparr>math = math', inputJax = jax, display = default_arg (Some True) display',
      start = default_arg origin start', end_loc = default_arg origin end',
      root = None, typesetRoot = None, item_state = UNPROCESSED, metrics = no_metrics,
      bbox = Map.empty, inputData = Map.empty, outputData = Map.empty\<rparr>"

text \<open>
  A method runs on the item and either returns or throws; in both cases the item is left
  in some state.  A method is therefore a \<open>procedure\<close>: a function from the item to an
  outcome (\<open>Inl\<close> the thrown value, \<open>Inr\<close> the returned one) paired with the item
  afterwards.
\<close>

type_synonym ('err, 'a, 'item) procedure = "'item \<Rightarrow> ('err + 'a) \<times> 'item"

text \<open>The three methods that the abstract class leaves empty (\<^verbatim>\<open>{}\<close>).\<close>

definition addEventHandlers :: "('err, unit, ('jax, 'mml, 'elem, 'val) MathItem) procedure" where
  "addEventHandlers it = (Inr (), it)"

definition updateDocument :: "'doc \<Rightarrow> ('err, unit, ('jax, 'mml, 'elem, 'val) MathItem) procedure" where
  "updateDocument document it = (Inr (), it)"

definition removeFromDocument :: "bool \<Rightarrow> ('err, unit, ('jax, 'mml, 'elem, 'val) MathItem) procedure" where
  "removeFromDocument restore it = (Inr (), it)"

definition setMetrics ::
  "real \<Rightarrow> real \<Rightarrow> real \<Rightarrow> real \<Rightarrow> real
     \<Rightarrow> ('err, unit, ('jax, 'mml, 'elem, 'val) MathItem) procedure" where
  "setMetrics em' ex' cwidth lwidth scale' it =
     (Inr (), it\<lparr>metrics := \<lparr>em = Some em', ex = Some ex', containerWidth = Some cwidth,
                               lineWidth = Some lwidth, scale = Some scale'\<rparr>\<rparr>)"

text \<open>
  \<^verbatim>\<open>state(state = null, restore = false)\<close>.  The first argument is \<open>None\<close> when omitted or
  \<^verbatim>\<open>null\<close>, which the default makes the same; a call that omits \<^verbatim>\<open>restore\<close> is the call
  with \<open>False\<close>.  The test \<^verbatim>\<open>state != null\<close> lets every number through, 0 too.  The call
  \<^verbatim>\<open>this.removeFromDocument(restore)\<close> is dispatched on the object, and the concrete item
  classes override that method, so \<open>state\<close> takes the method that the call reaches as its
  first argument \<open>rm\<close>; for the abstract class itself it is \<open>removeFromDocument\<close> above.
  The guards read \<^verbatim>\<open>this._state\<close> when they are reached, that is after the call.
\<close>

definition state ::
  "(bool \<Rightarrow> ('err, unit, ('jax, 'mml, 'elem, 'val) MathItem) procedure) \<Rightarrow> int option \<Rightarrow> bool
     \<Rightarrow> ('err, int, ('jax, 'mml, 'elem, 'val) MathItem) procedure" where
  "state rm newState restore it =
     (case newState of
        None \<Rightarrow> (Inr (item_state it), it)
      | Some s \<Rightarrow>
          (case (if s < INSERTED \<and> INSERTED \<le> item_state it then rm restore it
                 else (Inr (), it)) of
             (Inl e, it1) \<Rightarrow> (Inl e, it1)
           | (Inr u, it1) \<Rightarrow>
               (let it2 = (if s < TYPESET \<and> TYPESET \<le> item_state it1
                           then it1\<lparr>bbox := Map.empty, outputData := Map.empty\<rparr> else it1);
                    it3 = (if s < COMPILED \<and> COMPILED \<le> item_state it2
                           then it2\<lparr>inputData := Map.empty\<rparr> else it2);
                    it4 = it3\<lparr>item_state := s\<rparr>
                in (Inr (item_state it4), it4))))"

text \<open>
  The collaborators.  \<^verbatim>\<open>InputJax.js\<close> and \<^verbatim>\<open>MathDocument.js\<close> are imported, not part of the
  file: \<open>inputJax_compile\<close> stands for the \<^verbatim>\<open>compile\<close> method of an input jax and
  \<open>outputJax\<close> for the method table that \<^verbatim>\<open>document.outputJax\<close> yields.  Both receive the
  item itself, so they are methods on the item: they may change it, and they may throw.
\<close>

record ('err, 'elem, 'item, 'doc) OutputJax =
  jax_typeset :: "'doc \<Rightarrow> ('err, 'elem, 'item) procedure"
  jax_escaped :: "'doc \<Rightarrow> ('err, 'elem, 'item) procedure"

text \<open>
  \<^verbatim>\<open>compile(document)\<close>.  The assignment \<^verbatim>\<open>this.root = this.inputJax.compile(this)\<close>
  happens only when the call returns; a throw leaves the method at once.
\<close>

definition compile ::
  "(bool \<Rightarrow> ('err, unit, ('jax, 'mml, 'elem, 'val) MathItem) procedure)
     \<Rightarrow> ('jax \<Rightarrow> ('err, 'mml, ('jax, 'mml, 'elem, 'val) MathItem) procedure)
     \<Rightarrow> 'doc \<Rightarrow> ('err, unit, ('jax, 'mml, 'elem, 'val) MathItem) procedure" where
  "compile rm inputJax_compile document it =
     (case state rm None False it of
        (Inl e, it0) \<Rightarrow> (Inl e, it0)
      | (Inr s, it0) \<Rightarrow>
          if s < COMPILED then
            (case inputJax_compile (inputJax it0) it0 of
               (Inl e, it1) \<Rightarrow> (Inl e, it1)
             | (Inr r, it1) \<Rightarrow>
                 (case state rm (Some COMPILED) False (it1\<lparr>root := Some r\<rparr>) of
                    (Inl e, it2) \<Rightarrow> (Inl e, it2)
                  | (Inr s', it2) \<Rightarrow> (Inr (), it2)))
          else (Inr (), it0))"

text \<open>
  \<^verbatim>\<open>typeset(document)\<close>.  The entry point is chosen by \<^verbatim>\<open>this.display === null\<close>, read
  before the call.
\<close>

definition typeset ::
  "(bool \<Rightarrow> ('err, unit, ('jax, 'mml, 'elem, 'val) MathItem) procedure)
     \<Rightarrow> ('doc \<Rightarrow> ('err, 'elem, ('jax, 'mml, 'elem, 'val) MathItem, 'doc) OutputJax)
     \<Rightarrow> 'doc \<Rightarrow> ('err, unit, ('jax, 'mml, 'elem, 'val) MathItem) procedure" where
  "typeset rm outputJax document it =
     (case state rm None False it of
        (Inl e, it0) \<Rightarrow> (Inl e, it0)
      | (Inr s, it0) \<Rightarrow>
          if s < TYPESET then
            (case (if display it0 = None then jax_escaped (outputJax document)
                   else jax_typeset (outputJax document)) document it0 of
               (Inl e, it1) \<Rightarrow> (Inl e, it1)
             | (Inr el, it1) \<Rightarrow>
                 (case state rm (Some TYPESET) False (it1\<lparr>typesetRoot := Some el\<rparr>) of
                    (Inl e, it2) \<Rightarrow> (Inl e, it2)
                  | (Inr s', it2) \<Rightarrow> (Inr (), it2)))
          else (Inr (), it0))"

section \<open>TexError\<close>

text \<open>
  The second class of the file builds an error message from a template.  A JavaScript
  string is modelled as a \<open>string\<close>, one \<open>char\<close> per code unit, so the model covers the code
  units below 256; comparisons go through the code unit, as JavaScript's do.
\<close>

definition code_unit :: "char \<Rightarrow> nat" where
  "code_unit c = of_char c"

subsection \<open>Regular expressions\<close>

text \<open>
  The two regular expressions of the class use literals, the classes \<^verbatim>\<open>\d\<close>, \<^verbatim>\<open>[a-z]\<close>,
  \<^verbatim>\<open>.\<close> and \<^verbatim>\<open>[^\}]\<close>, sequence, alternative and the greedy quantifiers \<^verbatim>\<open>*\<close> and \<^verbatim>\<open>+\<close>.
  \<open>rmatch r s\<close> lists what can remain of \<open>s\<close> after a match of \<open>r\<close> at its start, in the
  order in which a backtracking matcher tries the possibilities: the alternatives from left
  to right, a quantifier with one more round first.  The head of the list is the match
  JavaScript reports.  A round of \<^verbatim>\<open>*\<close> that consumes nothing is not tried again.
\<close>

datatype regex =
    Lit char
  | Digit
  | Lower
  | AnyChar
  | NotChar char
  | Seq regex regex
  | Alt regex regex
  | Star regex

definition Repeat1 :: "regex \<Rightarrow> regex" where
  "Repeat1 r = Seq r (Star r)"

definition is_digit :: "char \<Rightarrow> bool" where
  "is_digit c = (48 \<le> code_unit c \<and> code_unit c \<le> 57)"

definition is_lower :: "char \<Rightarrow> bool" where
  "is_lower c = (97 \<le> code_unit c \<and> code_unit c \<le> 122)"

text \<open>Of the line terminators that \<^verbatim>\<open>.\<close> excludes, line feed and carriage return are chars.\<close>

definition is_line_terminator :: "char \<Rightarrow> bool" where
  "is_line_terminator c = (code_unit c = 10 \<or> code_unit c = 13)"

fun atom :: "(char \<Rightarrow> bool) \<Rightarrow> string \<Rightarrow> string list" where
  "atom p [] = []"
| "atom p (c # cs) = (if p c then [cs] else [])"

fun rmatch :: "regex \<Rightarrow> string \<Rightarrow> string list" where
  "rmatch (Lit c) s = atom (\<lambda>x. x = c) s"
| "rmatch Digit s = atom is_digit s"
| "rmatch Lower s = atom is_lower s"
| "rmatch AnyChar s = atom (\<lambda>x. \<not> is_line_terminator x) s"
| "rmatch (NotChar c) s = atom (\<lambda>x. x \<noteq> c) s"
| "rmatch (Seq a b) s = concat (map (rmatch b) (rmatch a s))"
| "rmatch (Alt a b) s = rmatch a s @ rmatch b s"
| "rmatch (Star a) s =
     concat (map (\<lambda>s'. if length s' < length s then rmatch (Star a) s' else []) (rmatch a s))
     @ [s]"

declare rmatch.simps(8) [simp del]

text \<open>
  \<^verbatim>\<open>pattern = /%(\d+|\{\d+\}|\{[a-z]+:\%\d+(?:\|(?:%\{\d+\}|%.|[^\}])*)+\}|.)/g\<close>, with
  its parts named: \<open>braced_number\<close> is \<^verbatim>\<open>\{\d+\}\<close>, \<open>plural_item\<close> is
  \<^verbatim>\<open>(?:%\{\d+\}|%.|[^\}])\<close> and \<open>plural_form\<close> is the third alternative.
\<close>

definition braced_number :: regex where
  "braced_number = Seq (Lit CHR ''{'') (Seq (Repeat1 Digit) (Lit CHR ''}''))"

definition plural_item :: regex where
  "plural_item =
     Alt (Seq (Lit CHR ''%'') braced_number)
       (Alt (Seq (Lit CHR ''%'') AnyChar) (NotChar CHR ''}''))"

definition plural_form :: regex where
  "plural_form =
     Seq (Lit CHR ''{'') (Seq (Repeat1 Lower) (Seq (Lit CHR '':'') (Seq (Lit CHR ''%'')
       (Seq (Repeat1 Digit) (Seq (Repeat1 (Seq (Lit CHR ''|'') (Star plural_item)))
         (Lit CHR ''}''))))))"

definition pattern :: regex where
  "pattern =
     Seq (Lit CHR ''%'')
       (Alt (Repeat1 Digit) (Alt braced_number (Alt plural_form AnyChar)))"

text \<open>
  \<^verbatim>\<open>/^\{([a-z]+):%(\d+)\|(.*)\}$/\<close>, the expression that \<^verbatim>\<open>processString\<close> matches against
  a whole part; the anchors are in \<open>matches_whole\<close>.
\<close>

definition plural_whole :: regex where
  "plural_whole =
     Seq (Lit CHR ''{'') (Seq (Repeat1 Lower) (Seq (Lit CHR '':'') (Seq (Lit CHR ''%'')
       (Seq (Repeat1 Digit) (Seq (Lit CHR ''|'') (Seq (Star AnyChar) (Lit CHR ''}'')))))))"

definition matches_whole :: "regex \<Rightarrow> string \<Rightarrow> bool" where
  "matches_whole r s = ([] \<in> set (rmatch r s))"

subsection \<open>Splitting the template\<close>

text \<open>
  A match never leaves more than it was given, and a match of \<open>pattern\<close> consumes its
  \<^verbatim>\<open>%\<close> at least; \<open>split_pattern\<close> terminates for that reason.
\<close>

lemma atom_shorter: "r \<in> set (atom p s) \<Longrightarrow> length r < length s"
  by (cases s) (auto split: if_splits)

lemma rmatch_length: "r \<in> set (rmatch p s) \<Longrightarrow> length r \<le> length s"
proof (induction p s arbitrary: r rule: rmatch.induct)
  case (6 a b s)
  from "6.prems" obtain m where m: "m \<in> set (rmatch a s)" "r \<in> set (rmatch b m)" by auto
  from m(1) have "length m \<le> length s" by (rule "6.IH"(1))
  moreover from m have "length r \<le> length m" by (rule "6.IH"(2))
  ultimately show ?case by simp
next
  case (7 a b s)
  from "7.prems" have "r \<in> set (rmatch a s) \<or> r \<in> set (rmatch b s)" by simp
  then show ?case using "7.IH" by blast
next
  case (8 a s)
  from "8.prems" have "r \<in> set (concat (map (\<lambda>s'. if length s' < length s
      then rmatch (Star a) s' else []) (rmatch a s)) @ [s])"
    by (subst (asm) rmatch.simps(8))
  then consider "r = s"
    | m where "m \<in> set (rmatch a s)" "length m < length s" "r \<in> set (rmatch (Star a) m)"
    by (auto split: if_splits)
  then show ?case
  proof cases
    case 1
    then show ?thesis by simp
  next
    case 2
    from 2(1,2,3) have "length r \<le> length m" by (rule "8.IH"(2))
    with 2(2) show ?thesis by simp
  qed
qed (auto dest: atom_shorter)

lemma pattern_consumes: "r \<in> set (rmatch pattern s) \<Longrightarrow> length r < length s"
proof -
  assume "r \<in> set (rmatch pattern s)"
  then obtain m where "m \<in> set (atom (\<lambda>x. x = CHR ''%'') s)"
    and "r \<in> set (rmatch
          (Alt (Repeat1 Digit) (Alt braced_number (Alt plural_form AnyChar))) m)"
    unfolding pattern_def rmatch.simps(6) rmatch.simps(1) by auto
  then have "length m < length s" "length r \<le> length m"
    by (auto dest: atom_shorter rmatch_length simp del: rmatch.simps)
  then show ?thesis by simp
qed

text \<open>
  \<^verbatim>\<open>str.split(pattern)\<close>.  The expression has one capturing group, so the result
  alternates the text between two matches and the text of the group, which is the match
  without its \<^verbatim>\<open>%\<close>.  A match is tried at each position in turn; \<open>pre\<close> is the text since
  the last match.
\<close>

function split_pattern :: "string \<Rightarrow> string \<Rightarrow> string list" where
  "split_pattern pre [] = [pre]"
| "split_pattern pre (c # cs) =
     (case rmatch pattern (c # cs) of
        [] \<Rightarrow> split_pattern (pre @ [c]) cs
      | r # _ \<Rightarrow> pre # take (length cs - length r) cs # split_pattern [] r)"
  by pat_completeness auto
termination
proof (relation "measure (\<lambda>(pre, s). length s)")
  fix pre c cs r rs
  assume "rmatch pattern (c # cs) = r # rs"
  then have "r \<in> set (rmatch pattern (c # cs))" by simp
  then have "length r < length (c # cs)" by (rule pattern_consumes)
  then show "(([], r), (pre, c # cs)) \<in> measure (\<lambda>(pre, s). length s)" by simp
qed simp_all

subsection \<open>processString and the constructor\<close>

text \<open>\<^verbatim>\<open>a < b\<close> on strings: the first code unit that differs decides, a proper prefix is less.\<close>

fun js_less :: "string \<Rightarrow> string \<Rightarrow> bool" where
  "js_less [] [] = False"
| "js_less [] (y # ys) = True"
| "js_less (x # xs) [] = False"
| "js_less (x # xs) (y # ys) =
     (if code_unit x < code_unit y then True
      else if code_unit y < code_unit x then False
      else js_less xs ys)"

text \<open>The test \<^verbatim>\<open>c >= '0' && c <= '9'\<close>.\<close>

definition digit_range :: "string \<Rightarrow> bool" where
  "digit_range c = (\<not> js_less c ''0'' \<and> \<not> js_less ''9'' c)"

text \<open>
  \<^verbatim>\<open>parseInt(s, 10)\<close> on a string that is empty or starts with a digit, which are the
  strings \<^verbatim>\<open>processString\<close> passes: the value of the leading digits, \<open>None\<close> (\<^verbatim>\<open>NaN\<close>)
  when there is none.
\<close>

definition parseInt :: "string \<Rightarrow> nat option" where
  "parseInt s =
     (case takeWhile is_digit s of
        [] \<Rightarrow> None
      | ds \<Rightarrow> Some (foldl (\<lambda>n d. 10 * n + (code_unit d - 48)) 0 ds))"

text \<open>
  \<^verbatim>\<open>args[parseInt(...) - 1]\<close>: \<open>None\<close> is \<^verbatim>\<open>undefined\<close>, the value of an index that is
  \<^verbatim>\<open>NaN\<close>, negative or beyond the array.
\<close>

definition arg_at :: "string list \<Rightarrow> nat option \<Rightarrow> string option" where
  "arg_at args n =
     (case n of
        None \<Rightarrow> None
      | Some k \<Rightarrow> if 1 \<le> k \<and> k - 1 < length args then Some (args ! (k - 1)) else None)"

text \<open>
  The body of the loop, for one captured part: \<open>take 1 part\<close> is \<^verbatim>\<open>parts[i].charAt(0)\<close>,
  \<open>drop 1 part\<close> is \<^verbatim>\<open>parts[i].substr(1)\<close> and \<open>take (length part - 2) (drop 1 part)\<close> is
  \<^verbatim>\<open>parts[i].substr(1, parts[i].length - 2)\<close>.  The arguments are strings, so the two
  \<^verbatim>\<open>typeof parts[i] === 'number'\<close> branches are not taken.
\<close>

definition process_part :: "string list \<Rightarrow> string \<Rightarrow> string" where
  "process_part args part =
     (let c = take 1 part;
          r = (if digit_range c then arg_at args (parseInt part)
               else if c = ''{'' then
                 (let c' = drop 1 part in
                  if digit_range c' then
                    arg_at args (parseInt (take (length part - 2) (drop 1 part)))
                  else if matches_whole plural_whole part then Some (''%'' @ part)
                  else Some part)
               else Some part)
      in case r of None \<Rightarrow> ''???'' | Some v \<Rightarrow> v)"

text \<open>The loop visits the odd indices, the captured parts.\<close>

fun process_parts :: "string list \<Rightarrow> string list \<Rightarrow> string list" where
  "process_parts args (between # part # rest) =
     between # process_part args part # process_parts args rest"
| "process_parts args parts = parts"

definition processString :: "string \<Rightarrow> string list \<Rightarrow> string" where
  "processString str args = concat (process_parts args (split_pattern [] str))"

text \<open>
  The fields \<^verbatim>\<open>id\<close> and \<^verbatim>\<open>message\<close> are declared without a value; \<open>tex_id\<close> is \<open>None\<close>
  as long as the constructor has not assigned it.  \<^verbatim>\<open>message\<close> is assigned on both paths.
\<close>

record TexError =
  tex_id :: "string option"
  message :: string

definition new_TexError :: "string list \<Rightarrow> TexError" where
  "new_TexError input =
     (if \<not> (length input > 1) then \<lparr>tex_id = None, message = []\<rparr>
      else \<lparr>tex_id = Some (input ! 0),
            message = processString (input ! 1) (drop 2 input)\<rparr>)"

section \<open>Concrete items\<close>

text \<open>
  The items, overrides and collaborators at which the theorems below are instantiated.
  \<open>example_item\<close> is the item of the specification's scenario, freshly constructed;
  \<open>typeset_item\<close> and \<open>inserted_item\<close> are the same item further along, with every
  container filled.  \<open>marking_remove\<close> is an override of \<^verbatim>\<open>removeFromDocument\<close> that
  leaves a trace of its call, and of the argument it received, in \<open>outputData\<close>.
  \<open>failing_remove\<close> is an override that throws.
  \<open>tree_parser\<close> is an input jax that returns a tree and notes itself in \<open>inputData\<close>,
  \<open>failing_parser\<close> one that throws; \<open>example_outputJax\<close> has two entry points that can
  be told apart, and those of \<open>failing_outputJax\<close> throw.
\<close>

definition example_item :: "(string, string, string, string) MathItem" where
  "example_item = AbstractMathItem ''x^2'' ''TeX'' (Given (Some False)) Omitted Omitted"

definition typeset_item :: "(string, string, string, string) MathItem" where
  "typeset_item = example_item
     \<lparr>root := Some ''msup'', typesetRoot := Some ''mjx-container'', item_state := TYPESET,
      bbox := [''w'' \<mapsto> ''1.2''], inputData := [''macros'' \<mapsto> ''none''],
      outputData := [''font'' \<mapsto> ''TeX'']\<rparr>"

definition inserted_item :: "(string, string, string, string) MathItem" where
  "inserted_item = typeset_item\<lparr>item_state := INSERTED\<rparr>"

definition marking_remove ::
  "bool \<Rightarrow> (string, unit, (string, string, string, string) MathItem) procedure" where
  "marking_remove restore it =
     (Inr (), it\<lparr>outputData :=
        (outputData it)(''removed'' \<mapsto> (if restore then ''restored'' else ''dropped''))\<rparr>)"

definition failing_remove ::
  "bool \<Rightarrow> (string, unit, (string, string, string, string) MathItem) procedure" where
  "failing_remove restore it = (Inl ''detached'', it)"

definition tree_parser ::
  "string \<Rightarrow> (string, string, (string, string, string, string) MathItem) procedure" where
  "tree_parser jax it = (Inr (''mml:'' @ math it), it\<lparr>inputData := [''jax'' \<mapsto> jax]\<rparr>)"

definition failing_parser ::
  "string \<Rightarrow> (string, string, (string, string, string, string) MathItem) procedure" where
  "failing_parser jax it = (Inl ''ParseError'', it)"

definition example_outputJax ::
  "unit \<Rightarrow> (string, string, (string, string, string, string) MathItem, unit) OutputJax" where
  "example_outputJax document =
     \<lparr>jax_typeset = (\<lambda>d it. (Inr ''typeset-output'', it\<lparr>bbox := [''w'' \<mapsto> ''1.2'']\<rparr>)),
      jax_escaped = (\<lambda>d it. (Inr ''escaped-output'', it))\<rparr>"

definition failing_outputJax ::
  "unit \<Rightarrow> (string, string, (string, string, string, string) MathItem, unit) OutputJax" where
  "failing_outputJax document =
     \<lparr>jax_typeset = (\<lambda>d it. (Inl ''RenderError'', it)),
      jax_escaped = (\<lambda>d it. (Inl ''RenderError'', it))\<rparr>"

section \<open>Properties of the state machine\<close>

lemmas STATE_defs = UNPROCESSED_def COMPILED_def TYPESET_def INSERTED_def

lemmas item_defs = example_item_def typeset_item_def inserted_item_def AbstractMathItem_def

subsection \<open>What \<open>state\<close> computes\<close>

lemma state_None: "state rm None restore it = (Inr (item_state it), it)"
  by (simp add: state_def)

lemma cleanup_fields:
  "(let it2 = (if s < TYPESET \<and> TYPESET \<le> item_state it1
               then it1\<lparr>bbox := Map.empty, outputData := Map.empty\<rparr> else it1);
        it3 = (if s < COMPILED \<and> COMPILED \<le> item_state it2
               then it2\<lparr>inputData := Map.empty\<rparr> else it2);
        it4 = it3\<lparr>item_state := s\<rparr>
    in (Inr (item_state it4), it4)) =
   (Inr s, it1\<lparr>item_state := s,
      bbox := if s < TYPESET \<and> TYPESET \<le> item_state it1 then Map.empty else bbox it1,
      outputData := if s < TYPESET \<and> TYPESET \<le> item_state it1 then Map.empty
                    else outputData it1,
      inputData := if s < COMPILED \<and> COMPILED \<le> item_state it1 then Map.empty
                   else inputData it1\<rparr>)"
proof -
  define g2 where "g2 = (s < TYPESET \<and> TYPESET \<le> item_state it1)"
  define g3 where "g3 = (s < COMPILED \<and> COMPILED \<le> item_state it1)"
  have "(let it2 = (if g2 then it1\<lparr>bbox := Map.empty, outputData := Map.empty\<rparr> else it1);
             it3 = (if s < COMPILED \<and> COMPILED \<le> item_state it2
                    then it2\<lparr>inputData := Map.empty\<rparr> else it2);
             it4 = it3\<lparr>item_state := s\<rparr>
         in (Inr (item_state it4), it4)) =
        (Inr s, it1\<lparr>item_state := s,
           bbox := if g2 then Map.empty else bbox it1,
           outputData := if g2 then Map.empty else outputData it1,
           inputData := if g3 then Map.empty else inputData it1\<rparr>)"
    by (cases g2; cases g3) (simp_all add: Let_def g3_def [symmetric])
  then show ?thesis by (simp only: g2_def g3_def)
qed

lemma state_Some:
  "state rm (Some s) restore it =
     (case (if s < INSERTED \<and> INSERTED \<le> item_state it then rm restore it else (Inr (), it)) of
        (Inl e, it1) \<Rightarrow> (Inl e, it1)
      | (Inr u, it1) \<Rightarrow>
          (Inr s, it1\<lparr>item_state := s,
             bbox := if s < TYPESET \<and> TYPESET \<le> item_state it1 then Map.empty else bbox it1,
             outputData := if s < TYPESET \<and> TYPESET \<le> item_state it1 then Map.empty
                           else outputData it1,
             inputData := if s < COMPILED \<and> COMPILED \<le> item_state it1 then Map.empty
                          else inputData it1\<rparr>))"
  by (simp only: state_def option.case cleanup_fields)

lemma state_Some_skip:
  assumes "\<not> (s < INSERTED \<and> INSERTED \<le> item_state it)"
  shows "state rm (Some s) restore it =
     (Inr s, it\<lparr>item_state := s,
        bbox := if s < TYPESET \<and> TYPESET \<le> item_state it then Map.empty else bbox it,
        outputData := if s < TYPESET \<and> TYPESET \<le> item_state it then Map.empty
                      else outputData it,
        inputData := if s < COMPILED \<and> COMPILED \<le> item_state it then Map.empty
                     else inputData it\<rparr>)"
  by (simp only: state_Some if_not_P [OF assms] prod.case sum.case)

lemma state_forward:
  assumes "item_state it \<le> s"
  shows "state rm (Some s) restore it = (Inr s, it\<lparr>item_state := s\<rparr>)"
proof -
  have g1: "\<not> (s < INSERTED \<and> INSERTED \<le> item_state it)" using assms by simp
  have g2: "\<not> (s < TYPESET \<and> TYPESET \<le> item_state it)" using assms by simp
  have g3: "\<not> (s < COMPILED \<and> COMPILED \<le> item_state it)" using assms by simp
  have "state rm (Some s) restore it =
       (Inr s, it\<lparr>item_state := s, bbox := bbox it, outputData := outputData it,
                   inputData := inputData it\<rparr>)"
    by (simp only: state_Some_skip [OF g1] if_not_P [OF g2] if_not_P [OF g3])
  then show ?thesis by simp
qed

lemma state_same:
  assumes "item_state it = s"
  shows "state rm (Some s) restore it = (Inr s, it)"
proof -
  have "item_state it \<le> s" using assms by simp
  then have "state rm (Some s) restore it = (Inr s, it\<lparr>item_state := s\<rparr>)"
    by (rule state_forward)
  then show ?thesis using assms by simp
qed

lemma state_returns_sets:
  assumes "state rm (Some s) restore it = (Inr v, it')"
  shows "v = s \<and> item_state it' = s"
proof (cases "if s < INSERTED \<and> INSERTED \<le> item_state it then rm restore it else (Inr (), it)")
  case (Pair r it1)
  then show ?thesis using assms
    by (cases r) (simp_all only: state_Some prod.case sum.case, auto)
qed

lemma state_to_typeset:
  assumes "item_state it < INSERTED"
  shows "state rm (Some TYPESET) restore it = (Inr TYPESET, it\<lparr>item_state := TYPESET\<rparr>)"
proof -
  have g1: "\<not> (TYPESET < INSERTED \<and> INSERTED \<le> item_state it)" using assms by simp
  have g2: "\<not> (TYPESET < TYPESET \<and> TYPESET \<le> item_state it)" by simp
  have g3: "\<not> (TYPESET < COMPILED \<and> COMPILED \<le> item_state it)" by (simp add: STATE_defs)
  have "state rm (Some TYPESET) restore it =
       (Inr TYPESET, it\<lparr>item_state := TYPESET, bbox := bbox it, outputData := outputData it,
                         inputData := inputData it\<rparr>)"
    by (simp only: state_Some_skip [OF g1] if_not_P [OF g2] if_not_P [OF g3])
  then show ?thesis by simp
qed

text \<open>With the \<^verbatim>\<open>removeFromDocument\<close> of the abstract class, which does nothing.\<close>

lemma state_base:
  "state removeFromDocument (Some s) restore it =
     (Inr s, it\<lparr>item_state := s,
        bbox := if s < TYPESET \<and> TYPESET \<le> item_state it then Map.empty else bbox it,
        outputData := if s < TYPESET \<and> TYPESET \<le> item_state it then Map.empty
                      else outputData it,
        inputData := if s < COMPILED \<and> COMPILED \<le> item_state it then Map.empty
                     else inputData it\<rparr>)"
  by (simp only: state_Some removeFromDocument_def if_cancel prod.case sum.case)

lemma state_base_changes:
  assumes "state removeFromDocument ns restore it = (r, it')"
  shows "\<exists>s b od idt.
    it' = it\<lparr>item_state := s, bbox := b, outputData := od, inputData := idt\<rparr>"
proof (cases ns)
  case None
  with assms have "it' = it" by (simp only: state_None prod.inject)
  then have "it' = it\<lparr>item_state := item_state it, bbox := bbox it,
      outputData := outputData it, inputData := inputData it\<rparr>" by simp
  then show ?thesis by blast
next
  case (Some s)
  with assms show ?thesis by (simp only: state_base prod.inject) blast
qed

lemma state_base_rollback:
  assumes "item_state it = INSERTED"
  shows "state removeFromDocument (Some UNPROCESSED) restore it =
     (Inr UNPROCESSED, it\<lparr>item_state := UNPROCESSED, bbox := Map.empty,
        outputData := Map.empty, inputData := Map.empty\<rparr>)"
proof -
  have g2: "UNPROCESSED < TYPESET \<and> TYPESET \<le> item_state it"
    and g3: "UNPROCESSED < COMPILED \<and> COMPILED \<le> item_state it"
    using assms by (simp_all add: STATE_defs)
  show ?thesis by (simp only: state_base if_P [OF g2] if_P [OF g3])
qed

lemma state_base_to_typeset:
  "state removeFromDocument (Some TYPESET) restore it =
     (Inr TYPESET, it\<lparr>item_state := TYPESET\<rparr>)"
proof -
  have g2: "\<not> (TYPESET < TYPESET \<and> TYPESET \<le> item_state it)" by simp
  have g3: "\<not> (TYPESET < COMPILED \<and> COMPILED \<le> item_state it)" by (simp add: STATE_defs)
  have "state removeFromDocument (Some TYPESET) restore it =
       (Inr TYPESET, it\<lparr>item_state := TYPESET, bbox := bbox it, outputData := outputData it,
                         inputData := inputData it\<rparr>)"
    by (simp only: state_base if_not_P [OF g2] if_not_P [OF g3])
  then show ?thesis by simp
qed

subsection \<open>What \<open>compile\<close> and \<open>typeset\<close> compute\<close>

lemma compile_done:
  assumes "COMPILED \<le> item_state it"
  shows "compile rm jc doc it = (Inr (), it)"
proof -
  have "\<not> item_state it < COMPILED" using assms by simp
  then show ?thesis
    by (simp only: compile_def state_None prod.case sum.case if_False)
qed

lemma typeset_done:
  assumes "TYPESET \<le> item_state it"
  shows "typeset rm oj doc it = (Inr (), it)"
proof -
  have "\<not> item_state it < TYPESET" using assms by simp
  then show ?thesis
    by (simp only: typeset_def state_None prod.case sum.case if_False)
qed

lemma compile_todo:
  assumes "item_state it < COMPILED"
  shows "compile rm jc doc it =
     (case jc (inputJax it) it of
        (Inl e, it1) \<Rightarrow> (Inl e, it1)
      | (Inr r, it1) \<Rightarrow>
          (case state rm (Some COMPILED) False (it1\<lparr>root := Some r\<rparr>) of
             (Inl e, it2) \<Rightarrow> (Inl e, it2)
           | (Inr s', it2) \<Rightarrow> (Inr (), it2)))"
  using assms by (simp only: compile_def state_None prod.case sum.case if_True)

lemma typeset_todo:
  assumes "item_state it < TYPESET"
  shows "typeset rm oj doc it =
     (case (if display it = None then jax_escaped (oj doc) else jax_typeset (oj doc)) doc it of
        (Inl e, it1) \<Rightarrow> (Inl e, it1)
      | (Inr el, it1) \<Rightarrow>
          (case state rm (Some TYPESET) False (it1\<lparr>typesetRoot := Some el\<rparr>) of
             (Inl e, it2) \<Rightarrow> (Inl e, it2)
           | (Inr s', it2) \<Rightarrow> (Inr (), it2)))"
  using assms by (simp only: typeset_def state_None prod.case sum.case if_True)

lemma compile_returns_state:
  assumes "compile rm jc doc it = (Inr u, it')"
  shows "COMPILED \<le> item_state it'"
proof (cases "item_state it < COMPILED")
  case False
  then have "COMPILED \<le> item_state it" by simp
  from compile_done [OF this, of rm jc doc] assms have "it' = it" by simp
  then show ?thesis using False by simp
next
  case True
  obtain r it1 where p: "jc (inputJax it) it = (r, it1)" by (cases "jc (inputJax it) it")
  show ?thesis
  proof (cases r)
    case (Inl e)
    with assms p show ?thesis by (simp add: compile_todo [OF True])
  next
    case (Inr t)
    obtain r2 it2 where q: "state rm (Some COMPILED) False (it1\<lparr>root := Some t\<rparr>) = (r2, it2)"
      by (cases "state rm (Some COMPILED) False (it1\<lparr>root := Some t\<rparr>)")
    show ?thesis
    proof (cases r2)
      case (Inl e)
      with assms p q Inr show ?thesis by (simp add: compile_todo [OF True])
    next
      case (Inr v)
      with q have "item_state it2 = COMPILED" using state_returns_sets by blast
      moreover have "it' = it2" using assms p q \<open>r = Inr t\<close> Inr
        by (simp add: compile_todo [OF True])
      ultimately show ?thesis by simp
    qed
  qed
qed

lemma typeset_returns_state:
  assumes "typeset rm oj doc it = (Inr u, it')"
  shows "TYPESET \<le> item_state it'"
proof (cases "item_state it < TYPESET")
  case False
  then have "TYPESET \<le> item_state it" by simp
  from typeset_done [OF this, of rm oj doc] assms have "it' = it" by simp
  then show ?thesis using False by simp
next
  case True
  obtain r it1 where
    p: "(if display it = None then jax_escaped (oj doc) else jax_typeset (oj doc)) doc it
          = (r, it1)"
    by (cases "(if display it = None then jax_escaped (oj doc) else jax_typeset (oj doc)) doc it")
  show ?thesis
  proof (cases r)
    case (Inl e)
    with assms p show ?thesis by (simp only: typeset_todo [OF True] prod.case sum.case) simp
  next
    case (Inr t)
    obtain r2 it2 where
      q: "state rm (Some TYPESET) False (it1\<lparr>typesetRoot := Some t\<rparr>) = (r2, it2)"
      by (cases "state rm (Some TYPESET) False (it1\<lparr>typesetRoot := Some t\<rparr>)")
    show ?thesis
    proof (cases r2)
      case (Inl e)
      with assms p q Inr show ?thesis
        by (simp only: typeset_todo [OF True] prod.case sum.case) simp
    next
      case (Inr v)
      with q have "item_state it2 = TYPESET" using state_returns_sets by blast
      moreover have "it' = it2" using assms p q \<open>r = Inr t\<close> Inr
        by (simp only: typeset_todo [OF True] prod.case sum.case) simp
      ultimately show ?thesis by simp
    qed
  qed
qed

lemma state_after_hook:
  assumes "state rm (Some s) restore it = (r, it')"
    and "s < INSERTED" and "INSERTED \<le> item_state it"
    and "rm restore it = (u, it1)"
  shows "\<exists>s' b od idt.
    it' = it1\<lparr>item_state := s', bbox := b, outputData := od, inputData := idt\<rparr>"
proof -
  have g: "s < INSERTED \<and> INSERTED \<le> item_state it" using assms(2,3) by simp
  show ?thesis
  proof (cases u)
    case (Inl e)
    with assms(1) have "it' = it1"
      by (simp only: state_Some if_P [OF g] assms(4) prod.case sum.case prod.inject)
    then have "it' = it1\<lparr>item_state := item_state it1, bbox := bbox it1,
        outputData := outputData it1, inputData := inputData it1\<rparr>" by simp
    then show ?thesis by blast
  next
    case (Inr v)
    with assms(1) show ?thesis
      by (simp only: state_Some if_P [OF g] assms(4) prod.case sum.case prod.inject) blast
  qed
qed

subsection \<open>The guards of \<open>state\<close>\<close>

text \<open>
  Claim C1.  A call \<^verbatim>\<open>state(newState, restore)\<close> with a target state runs three
  independent guards in the order INSERTED, TYPESET, COMPILED.  If the target is below
  INSERTED and the state is at least INSERTED, \<^verbatim>\<open>removeFromDocument(restore)\<close> is called
  first, on the item as it was and with the caller's \<open>restore\<close>; if the target is below
  TYPESET and the state is at least TYPESET, \<open>bbox\<close> and \<open>outputData\<close> become empty
  containers; if the target is below COMPILED and the state is at least COMPILED,
  \<open>inputData\<close> becomes an empty container.  Then the state field is set to the target,
  whatever it is, and the target is returned.  The first equation is for any override of
  \<^verbatim>\<open>removeFromDocument\<close>: the guards after the call read the state as the override left
  it, and should the override throw, the throw leaves \<open>state\<close> at once.  The second is
  for the class as it is written, whose method does nothing: the call always returns, and
  all three guards read the state the item had before.  A forward move fires no guard and
  changes the state field only, and setting the state that the item already has changes
  nothing.
\<close>

theorem state_cleanup_guards:
  "state rm (Some s) restore it =
     (case (if s < INSERTED \<and> INSERTED \<le> item_state it then rm restore it else (Inr (), it)) of
        (Inl e, it1) \<Rightarrow> (Inl e :: 'err + int, it1)
      | (Inr u, it1) \<Rightarrow>
          (Inr s, it1\<lparr>item_state := s,
             bbox := if s < TYPESET \<and> TYPESET \<le> item_state it1 then Map.empty else bbox it1,
             outputData := if s < TYPESET \<and> TYPESET \<le> item_state it1 then Map.empty
                           else outputData it1,
             inputData := if s < COMPILED \<and> COMPILED \<le> item_state it1 then Map.empty
                          else inputData it1\<rparr>))
   \<and> state removeFromDocument (Some s) restore it =
       (Inr s :: 'err + int, it\<lparr>item_state := s,
          bbox := if s < TYPESET \<and> TYPESET \<le> item_state it then Map.empty else bbox it,
          outputData := if s < TYPESET \<and> TYPESET \<le> item_state it then Map.empty
                        else outputData it,
          inputData := if s < COMPILED \<and> COMPILED \<le> item_state it then Map.empty
                       else inputData it\<rparr>)
   \<and> (item_state it \<le> s \<longrightarrow> state rm (Some s) restore it = (Inr s, it\<lparr>item_state := s\<rparr>))
   \<and> (item_state it = s \<longrightarrow> state rm (Some s) restore it = (Inr s, it))"
proof (intro conjI impI)
  show "state rm (Some s) restore it =
     (case (if s < INSERTED \<and> INSERTED \<le> item_state it then rm restore it else (Inr (), it)) of
        (Inl e, it1) \<Rightarrow> (Inl e :: 'err + int, it1)
      | (Inr u, it1) \<Rightarrow>
          (Inr s, it1\<lparr>item_state := s,
             bbox := if s < TYPESET \<and> TYPESET \<le> item_state it1 then Map.empty else bbox it1,
             outputData := if s < TYPESET \<and> TYPESET \<le> item_state it1 then Map.empty
                           else outputData it1,
             inputData := if s < COMPILED \<and> COMPILED \<le> item_state it1 then Map.empty
                          else inputData it1\<rparr>))"
    by (rule state_Some)
  show "state removeFromDocument (Some s) restore it =
       (Inr s :: 'err + int, it\<lparr>item_state := s,
          bbox := if s < TYPESET \<and> TYPESET \<le> item_state it then Map.empty else bbox it,
          outputData := if s < TYPESET \<and> TYPESET \<le> item_state it then Map.empty
                        else outputData it,
          inputData := if s < COMPILED \<and> COMPILED \<le> item_state it then Map.empty
                       else inputData it\<rparr>)"
    by (rule state_base)
  show "state rm (Some s) restore it = (Inr s, it\<lparr>item_state := s\<rparr>)"
    if "item_state it \<le> s"
    using that by (rule state_forward)
  show "state rm (Some s) restore it = (Inr s, it)" if "item_state it = s"
    using that by (rule state_same)
qed

theorem state_cleanup_guards_witness:
  "state marking_remove (Some TYPESET) True inserted_item =
     (Inr TYPESET, inserted_item\<lparr>item_state := TYPESET,
        outputData := [''font'' \<mapsto> ''TeX'', ''removed'' \<mapsto> ''restored'']\<rparr>)
   \<and> state marking_remove (Some COMPILED) False inserted_item =
     (Inr COMPILED, inserted_item\<lparr>item_state := COMPILED, bbox := Map.empty,
        outputData := Map.empty\<rparr>)
   \<and> state marking_remove (Some UNPROCESSED) True inserted_item =
     (Inr UNPROCESSED, inserted_item\<lparr>item_state := UNPROCESSED, bbox := Map.empty,
        outputData := Map.empty, inputData := Map.empty\<rparr>)
   \<and> state marking_remove (Some COMPILED) True typeset_item =
     (Inr COMPILED, typeset_item\<lparr>item_state := COMPILED, bbox := Map.empty,
        outputData := Map.empty\<rparr>)
   \<and> item_state example_item \<le> COMPILED
   \<and> state marking_remove (Some COMPILED) False example_item =
       (Inr COMPILED, example_item\<lparr>item_state := COMPILED\<rparr>)
   \<and> item_state inserted_item = INSERTED
   \<and> state marking_remove (Some INSERTED) False inserted_item = (Inr INSERTED, inserted_item)"
  using state_cleanup_guards [of marking_remove TYPESET True inserted_item]
    state_cleanup_guards [of marking_remove COMPILED False inserted_item]
    state_cleanup_guards [of marking_remove UNPROCESSED True inserted_item]
    state_cleanup_guards [of marking_remove COMPILED True typeset_item]
    state_cleanup_guards [of marking_remove COMPILED False example_item]
    state_cleanup_guards [of marking_remove INSERTED False inserted_item]
  by (simp add: marking_remove_def item_defs STATE_defs)

subsection \<open>What a rollback keeps\<close>

text \<open>
  Claim C2.  \<^verbatim>\<open>state(newState, restore)\<close> never clears \<open>root\<close> or \<open>typesetRoot\<close>: whatever
  the target, both have afterwards the values they had before.  In particular the rollback
  of an item in state INSERTED to UNPROCESSED empties \<open>bbox\<close>, \<open>outputData\<close> and
  \<open>inputData\<close>, sets the state, and leaves every other field, \<open>root\<close> and \<open>typesetRoot\<close>
  among them, as it was.  This is for the class as it is written; where a subclass
  overrides \<^verbatim>\<open>removeFromDocument\<close>, the two fields come out of \<open>state\<close> as that method
  left them, since \<open>state\<close> itself writes neither.
\<close>

theorem state_keeps_roots:
  "(state removeFromDocument ns restore it = (r :: 'err + int, it') \<longrightarrow>
      root it' = root it \<and> typesetRoot it' = typesetRoot it)
   \<and> (item_state it = INSERTED \<longrightarrow>
        state removeFromDocument (Some UNPROCESSED) restore it =
          (Inr UNPROCESSED :: 'err + int,
           it\<lparr>item_state := UNPROCESSED, bbox := Map.empty, outputData := Map.empty,
              inputData := Map.empty\<rparr>))
   \<and> (s < INSERTED \<longrightarrow> INSERTED \<le> item_state it \<longrightarrow> rm restore it = (u, it1) \<longrightarrow>
        state rm (Some s) restore it = (r', it2) \<longrightarrow>
        root it2 = root it1 \<and> typesetRoot it2 = typesetRoot it1)"
proof (intro conjI impI)
  assume "state removeFromDocument ns restore it = (r, it')"
  then obtain s b od idt where
    e: "it' = it\<lparr>item_state := s, bbox := b, outputData := od, inputData := idt\<rparr>"
    using state_base_changes by blast
  show "root it' = root it" "typesetRoot it' = typesetRoot it"
    by (simp_all add: e)
next
  assume "item_state it = INSERTED"
  then show "state removeFromDocument (Some UNPROCESSED) restore it =
          (Inr UNPROCESSED :: 'err + int,
           it\<lparr>item_state := UNPROCESSED, bbox := Map.empty, outputData := Map.empty,
              inputData := Map.empty\<rparr>)"
    by (rule state_base_rollback)
next
  assume "s < INSERTED" "INSERTED \<le> item_state it" "rm restore it = (u, it1)"
    "state rm (Some s) restore it = (r', it2)"
  then obtain s' b od idt where
    e: "it2 = it1\<lparr>item_state := s', bbox := b, outputData := od, inputData := idt\<rparr>"
    using state_after_hook by blast
  show "root it2 = root it1" "typesetRoot it2 = typesetRoot it1"
    by (simp_all add: e)
qed

theorem state_keeps_roots_witness:
  "item_state inserted_item = INSERTED
   \<and> state removeFromDocument (Some UNPROCESSED) True inserted_item =
       (Inr UNPROCESSED :: string + int,
        example_item\<lparr>root := Some ''msup'', typesetRoot := Some ''mjx-container''\<rparr>)
   \<and> root inserted_item = Some ''msup'' \<and> typesetRoot inserted_item = Some ''mjx-container''
   \<and> UNPROCESSED < INSERTED \<and> INSERTED \<le> item_state inserted_item
   \<and> marking_remove True inserted_item =
       (Inr (), inserted_item\<lparr>outputData :=
          [''font'' \<mapsto> ''TeX'', ''removed'' \<mapsto> ''restored'']\<rparr>)
   \<and> state marking_remove (Some UNPROCESSED) True inserted_item =
       (Inr UNPROCESSED,
        example_item\<lparr>root := Some ''msup'', typesetRoot := Some ''mjx-container''\<rparr>)"
  using state_keeps_roots [where ?'err = string, where it = inserted_item
      and ns = "Some UNPROCESSED" and restore = True and r = "Inr UNPROCESSED"
      and it' = "example_item\<lparr>root := Some ''msup'', typesetRoot := Some ''mjx-container''\<rparr>"
      and s = UNPROCESSED and rm = marking_remove and u = "Inr ()"
      and ?it1.0 = "inserted_item\<lparr>outputData :=
          [''font'' \<mapsto> ''TeX'', ''removed'' \<mapsto> ''restored'']\<rparr>"
      and r' = "Inr UNPROCESSED"
      and ?it2.0 = "example_item\<lparr>root := Some ''msup'',
          typesetRoot := Some ''mjx-container''\<rparr>"]
  by (simp add: item_defs STATE_defs state_def marking_remove_def removeFromDocument_def)

text \<open>
  Claim C9.  \<^verbatim>\<open>state(newState, restore)\<close> leaves \<open>math\<close>, \<open>inputJax\<close>, \<open>display\<close>,
  \<open>start\<close>, \<open>end\<close> and \<open>metrics\<close> as they were, for every target and every \<open>restore\<close>;
  in particular the metrics that \<open>setMetrics\<close> recorded are still there after a rollback
  to UNPROCESSED.  Again this is the class as it is written; under an override of
  \<^verbatim>\<open>removeFromDocument\<close> the six fields come out as the override left them.
\<close>

theorem state_frame:
  "(state removeFromDocument ns restore it = (r :: 'err + int, it') \<longrightarrow>
      math it' = math it \<and> inputJax it' = inputJax it \<and> display it' = display it
      \<and> start it' = start it \<and> end_loc it' = end_loc it \<and> metrics it' = metrics it)
   \<and> (setMetrics em' ex' cwidth lwidth scale' it = (v :: 'err + unit, it0) \<longrightarrow>
        state removeFromDocument (Some UNPROCESSED) restore it0 = (r0 :: 'err + int, it3) \<longrightarrow>
        metrics it3 = \<lparr>em = Some em', ex = Some ex', containerWidth = Some cwidth,
                        lineWidth = Some lwidth, scale = Some scale'\<rparr>)
   \<and> (s < INSERTED \<longrightarrow> INSERTED \<le> item_state it \<longrightarrow> rm restore it = (u, it1) \<longrightarrow>
        state rm (Some s) restore it = (r', it2) \<longrightarrow>
        math it2 = math it1 \<and> inputJax it2 = inputJax it1 \<and> display it2 = display it1
        \<and> start it2 = start it1 \<and> end_loc it2 = end_loc it1 \<and> metrics it2 = metrics it1)"
proof (intro conjI impI)
  assume "state removeFromDocument ns restore it = (r, it')"
  then obtain s b od idt where
    e: "it' = it\<lparr>item_state := s, bbox := b, outputData := od, inputData := idt\<rparr>"
    using state_base_changes by blast
  show "math it' = math it" "inputJax it' = inputJax it" "display it' = display it"
    "start it' = start it" "end_loc it' = end_loc it" "metrics it' = metrics it"
    by (simp_all add: e)
next
  assume m: "setMetrics em' ex' cwidth lwidth scale' it = (v, it0)"
    and a: "state removeFromDocument (Some UNPROCESSED) restore it0 = (r0, it3)"
  from m have "metrics it0 = \<lparr>em = Some em', ex = Some ex', containerWidth = Some cwidth,
      lineWidth = Some lwidth, scale = Some scale'\<rparr>"
    by (auto simp add: setMetrics_def)
  moreover from a obtain s b od idt where
    "it3 = it0\<lparr>item_state := s, bbox := b, outputData := od, inputData := idt\<rparr>"
    using state_base_changes by blast
  ultimately show "metrics it3 = \<lparr>em = Some em', ex = Some ex',
      containerWidth = Some cwidth, lineWidth = Some lwidth, scale = Some scale'\<rparr>"
    by simp
next
  assume "s < INSERTED" "INSERTED \<le> item_state it" "rm restore it = (u, it1)"
    "state rm (Some s) restore it = (r', it2)"
  then obtain s' b od idt where
    e: "it2 = it1\<lparr>item_state := s', bbox := b, outputData := od, inputData := idt\<rparr>"
    using state_after_hook by blast
  show "math it2 = math it1" "inputJax it2 = inputJax it1" "display it2 = display it1"
    "start it2 = start it1" "end_loc it2 = end_loc it1" "metrics it2 = metrics it1"
    by (simp_all add: e)
qed

theorem state_frame_witness:
  "state removeFromDocument (Some COMPILED) False inserted_item =
     (Inr COMPILED :: string + int,
      inserted_item\<lparr>item_state := COMPILED, bbox := Map.empty, outputData := Map.empty\<rparr>)
   \<and> math inserted_item = ''x^2'' \<and> inputJax inserted_item = ''TeX''
   \<and> display inserted_item = Some False \<and> start inserted_item = origin
   \<and> end_loc inserted_item = origin \<and> metrics inserted_item = no_metrics
   \<and> setMetrics 16 8 800 640 1 inserted_item =
       (Inr () :: string + unit,
        inserted_item\<lparr>metrics := \<lparr>em = Some 16, ex = Some 8, containerWidth = Some 800,
                                      lineWidth = Some 640, scale = Some 1\<rparr>\<rparr>)
   \<and> state removeFromDocument (Some UNPROCESSED) False
        (inserted_item\<lparr>metrics := \<lparr>em = Some 16, ex = Some 8, containerWidth = Some 800,
                                      lineWidth = Some 640, scale = Some 1\<rparr>\<rparr>) =
       (Inr UNPROCESSED :: string + int,
        example_item\<lparr>root := Some ''msup'', typesetRoot := Some ''mjx-container'',
           metrics := \<lparr>em = Some 16, ex = Some 8, containerWidth = Some 800,
                        lineWidth = Some 640, scale = Some 1\<rparr>\<rparr>)
   \<and> COMPILED < INSERTED \<and> INSERTED \<le> item_state inserted_item
   \<and> marking_remove False inserted_item =
       (Inr (), inserted_item\<lparr>outputData :=
          [''font'' \<mapsto> ''TeX'', ''removed'' \<mapsto> ''dropped'']\<rparr>)
   \<and> state marking_remove (Some COMPILED) False inserted_item =
       (Inr COMPILED,
        inserted_item\<lparr>item_state := COMPILED, bbox := Map.empty, outputData := Map.empty\<rparr>)"
  using state_frame [where ?'err = string, where it = inserted_item and ns = "Some COMPILED"
      and restore = False and r = "Inr COMPILED"
      and it' = "inserted_item\<lparr>item_state := COMPILED, bbox := Map.empty,
                               outputData := Map.empty\<rparr>"
      and em' = 16 and ex' = 8 and cwidth = 800 and lwidth = 640 and scale' = 1
      and v = "Inr ()" and r0 = "Inr UNPROCESSED"
      and ?it0.0 = "inserted_item\<lparr>metrics := \<lparr>em = Some 16, ex = Some 8,
          containerWidth = Some 800, lineWidth = Some 640, scale = Some 1\<rparr>\<rparr>"
      and ?it3.0 = "example_item\<lparr>root := Some ''msup'', typesetRoot := Some ''mjx-container'',
           metrics := \<lparr>em = Some 16, ex = Some 8, containerWidth = Some 800,
                        lineWidth = Some 640, scale = Some 1\<rparr>\<rparr>"
      and s = COMPILED and rm = marking_remove and u = "Inr ()"
      and ?it1.0 = "inserted_item\<lparr>outputData :=
          [''font'' \<mapsto> ''TeX'', ''removed'' \<mapsto> ''dropped'']\<rparr>"
      and r' = "Inr COMPILED"
      and ?it2.0 = "inserted_item\<lparr>item_state := COMPILED, bbox := Map.empty,
                                 outputData := Map.empty\<rparr>"]
  by (simp add: item_defs STATE_defs state_def removeFromDocument_def setMetrics_def
      marking_remove_def)

subsection \<open>The forward operations\<close>

text \<open>
  Claim C3.  \<open>compile\<close> and \<open>typeset\<close> are idempotent.  On an item whose state is at least
  COMPILED, \<open>compile\<close> returns with the item exactly as it was, so \<open>root\<close> and the state
  are unchanged, and it does so for every parser: the parser is not consulted.  The same
  holds for \<open>typeset\<close>, TYPESET and the renderer.  Hence, when a first call has returned,
  a second call on the item it left returns that item unchanged, whichever parser or
  renderer it is given, even one that throws: the collaborator has run in the first call
  at most, and \<open>root\<close> (\<open>typesetRoot\<close>) is the same after both.
\<close>

theorem compile_typeset_idempotent:
  "(COMPILED \<le> item_state it \<longrightarrow> compile rm jc doc it = (Inr (), it))
   \<and> (TYPESET \<le> item_state it \<longrightarrow> typeset rm oj doc it = (Inr (), it))
   \<and> (compile rm jc doc it = (Inr (), it1) \<longrightarrow> compile rm' jc' doc' it1 = (Inr (), it1))
   \<and> (typeset rm oj doc it = (Inr (), it2) \<longrightarrow> typeset rm' oj' doc' it2 = (Inr (), it2))"
proof (intro conjI impI)
  show "compile rm jc doc it = (Inr (), it)" if "COMPILED \<le> item_state it"
    using that by (rule compile_done)
  show "typeset rm oj doc it = (Inr (), it)" if "TYPESET \<le> item_state it"
    using that by (rule typeset_done)
  show "compile rm' jc' doc' it1 = (Inr (), it1)" if "compile rm jc doc it = (Inr (), it1)"
    using that by (intro compile_done compile_returns_state)
  show "typeset rm' oj' doc' it2 = (Inr (), it2)" if "typeset rm oj doc it = (Inr (), it2)"
    using that by (intro typeset_done typeset_returns_state)
qed

theorem compile_typeset_idempotent_witness:
  "COMPILED \<le> item_state inserted_item
   \<and> compile marking_remove failing_parser () inserted_item = (Inr (), inserted_item)
   \<and> TYPESET \<le> item_state inserted_item
   \<and> typeset marking_remove failing_outputJax () inserted_item = (Inr (), inserted_item)
   \<and> compile marking_remove tree_parser () example_item =
       (Inr (), example_item\<lparr>root := Some ''mml:x^2'', item_state := COMPILED,
                              inputData := [''jax'' \<mapsto> ''TeX'']\<rparr>)
   \<and> compile marking_remove failing_parser ()
         (example_item\<lparr>root := Some ''mml:x^2'', item_state := COMPILED,
                        inputData := [''jax'' \<mapsto> ''TeX'']\<rparr>) =
       (Inr (), example_item\<lparr>root := Some ''mml:x^2'', item_state := COMPILED,
                              inputData := [''jax'' \<mapsto> ''TeX'']\<rparr>)
   \<and> typeset marking_remove example_outputJax () example_item =
       (Inr (), example_item\<lparr>typesetRoot := Some ''typeset-output'', item_state := TYPESET,
                              bbox := [''w'' \<mapsto> ''1.2'']\<rparr>)
   \<and> typeset marking_remove failing_outputJax ()
         (example_item\<lparr>typesetRoot := Some ''typeset-output'', item_state := TYPESET,
                        bbox := [''w'' \<mapsto> ''1.2'']\<rparr>) =
       (Inr (), example_item\<lparr>typesetRoot := Some ''typeset-output'', item_state := TYPESET,
                              bbox := [''w'' \<mapsto> ''1.2'']\<rparr>)"
proof -
  let ?c = "example_item\<lparr>root := Some ''mml:x^2'', item_state := COMPILED,
                          inputData := [''jax'' \<mapsto> ''TeX'']\<rparr>"
  let ?t = "example_item\<lparr>typesetRoot := Some ''typeset-output'', item_state := TYPESET,
                          bbox := [''w'' \<mapsto> ''1.2'']\<rparr>"
  have c: "compile marking_remove tree_parser () example_item = (Inr (), ?c)"
    by (simp add: compile_def state_def tree_parser_def item_defs STATE_defs)
  have t: "typeset marking_remove example_outputJax () example_item = (Inr (), ?t)"
    by (simp add: typeset_def state_def example_outputJax_def item_defs STATE_defs)
  have i: "COMPILED \<le> item_state inserted_item" "TYPESET \<le> item_state inserted_item"
    by (simp_all add: item_defs STATE_defs)
  show ?thesis
    using compile_typeset_idempotent
      [where it = inserted_item and rm = marking_remove and jc = failing_parser and doc = "()"
        and oj = failing_outputJax and ?it1.0 = inserted_item and rm' = marking_remove
        and jc' = failing_parser and doc' = "()" and ?it2.0 = inserted_item
        and oj' = failing_outputJax]
      compile_typeset_idempotent
      [where it = example_item and rm = marking_remove and jc = tree_parser and doc = "()"
        and oj = example_outputJax and ?it1.0 = ?c and rm' = marking_remove
        and jc' = failing_parser and doc' = "()" and ?it2.0 = ?t and oj' = failing_outputJax]
      c t i
    by simp
qed

text \<open>
  Claim C4.  When the parser throws on an item in state UNPROCESSED, \<open>compile\<close> throws
  the same value and writes nothing: the item is as the parser's call left it.  So the
  state is still UNPROCESSED and \<open>root\<close> is what it was, \<^verbatim>\<open>null\<close> if it was \<^verbatim>\<open>null\<close>,
  the parser itself not having changed them.  (An item that was rolled back to
  UNPROCESSED still has its old \<open>root\<close>, and keeps it.)
\<close>

theorem compile_failure_propagates:
  assumes "item_state it = UNPROCESSED" and "jc (inputJax it) it = (Inl e, it1)"
  shows "compile rm jc doc it = (Inl e, it1)
    \<and> (item_state it1 = item_state it \<longrightarrow>
          item_state (snd (compile rm jc doc it)) = UNPROCESSED)
    \<and> (root it1 = root it \<longrightarrow> root (snd (compile rm jc doc it)) = root it)
    \<and> (root it = None \<longrightarrow> root it1 = root it \<longrightarrow> root (snd (compile rm jc doc it)) = None)"
proof -
  have "item_state it < COMPILED" using assms(1) by (simp add: STATE_defs)
  then have "compile rm jc doc it = (Inl e, it1)"
    by (simp only: compile_todo assms(2) prod.case sum.case)
  then show ?thesis using assms(1) by simp
qed

theorem compile_failure_propagates_witness:
  "item_state example_item = UNPROCESSED
   \<and> root example_item = None
   \<and> failing_parser (inputJax example_item) example_item = (Inl ''ParseError'', example_item)
   \<and> compile removeFromDocument failing_parser () example_item =
       (Inl ''ParseError'', example_item)
   \<and> item_state (snd (compile removeFromDocument failing_parser () example_item)) = UNPROCESSED
   \<and> root (snd (compile removeFromDocument failing_parser () example_item)) = None"
proof -
  have a: "item_state example_item = UNPROCESSED" "root example_item = None"
    by (simp_all add: item_defs)
  have b: "failing_parser (inputJax example_item) example_item =
      (Inl ''ParseError'', example_item)"
    by (simp add: failing_parser_def)
  show ?thesis
    using compile_failure_propagates [where it = example_item and jc = failing_parser
        and e = "''ParseError''" and ?it1.0 = example_item and rm = removeFromDocument
        and doc = "()", OF a(1) b] a b
    by simp
qed

text \<open>
  Claim C5.  On an item whose state is below TYPESET, \<open>typeset\<close> calls the \<^verbatim>\<open>escaped\<close>
  entry point of the document's output jax when \<open>display\<close> is \<^verbatim>\<open>null\<close> and the
  \<^verbatim>\<open>typeset\<close> entry point otherwise; when that call returns, its result is stored in
  \<open>typesetRoot\<close> and the state becomes TYPESET, nothing else being changed after the call.
  Only the chosen entry point occurs in the hypothesis, so the other one has no part in
  the result.  The first equation is for the class as written; the second is for any
  override of \<^verbatim>\<open>removeFromDocument\<close>, which is not reached unless the renderer itself has
  moved the item to INSERTED.
\<close>

theorem typeset_selects_entry:
  assumes "item_state it < TYPESET"
    and "(if display it = None then jax_escaped (oj doc) else jax_typeset (oj doc)) doc it
           = (Inr el, it1)"
  shows "typeset removeFromDocument oj doc it =
           (Inr (), it1\<lparr>typesetRoot := Some el, item_state := TYPESET\<rparr>)
    \<and> (item_state it1 < INSERTED \<longrightarrow>
          typeset rm oj doc it = (Inr (), it1\<lparr>typesetRoot := Some el, item_state := TYPESET\<rparr>))"
proof (intro conjI impI)
  show "typeset removeFromDocument oj doc it =
           (Inr (), it1\<lparr>typesetRoot := Some el, item_state := TYPESET\<rparr>)"
    by (simp only: typeset_todo [OF assms(1)] assms(2) prod.case sum.case
        state_base_to_typeset)
next
  assume "item_state it1 < INSERTED"
  then have "item_state (it1\<lparr>typesetRoot := Some el\<rparr>) < INSERTED" by simp
  then show "typeset rm oj doc it =
      (Inr (), it1\<lparr>typesetRoot := Some el, item_state := TYPESET\<rparr>)"
    by (simp only: typeset_todo [OF assms(1)] assms(2) prod.case sum.case state_to_typeset)
qed

theorem typeset_selects_entry_witness:
  "item_state example_item < TYPESET
   \<and> display example_item = Some False
   \<and> typeset removeFromDocument example_outputJax () example_item =
       (Inr (), example_item\<lparr>bbox := [''w'' \<mapsto> ''1.2''],
                  typesetRoot := Some ''typeset-output'', item_state := TYPESET\<rparr>)
   \<and> display (example_item\<lparr>display := None\<rparr>) = None
   \<and> item_state (example_item\<lparr>display := None\<rparr>) < INSERTED
   \<and> typeset marking_remove example_outputJax () (example_item\<lparr>display := None\<rparr>) =
       (Inr (), example_item\<lparr>display := None, typesetRoot := Some ''escaped-output'',
                  item_state := TYPESET\<rparr>)"
proof -
  have a: "item_state example_item < TYPESET"
    "item_state (example_item\<lparr>display := None\<rparr>) < TYPESET"
    "item_state (example_item\<lparr>display := None\<rparr>) < INSERTED"
    "display example_item = Some False"
    by (simp_all add: item_defs STATE_defs)
  have b: "(if display example_item = None then jax_escaped (example_outputJax ())
            else jax_typeset (example_outputJax ())) () example_item =
           (Inr ''typeset-output'', example_item\<lparr>bbox := [''w'' \<mapsto> ''1.2'']\<rparr>)"
    using a(4) by (simp add: example_outputJax_def)
  have c: "(if display (example_item\<lparr>display := None\<rparr>) = None
            then jax_escaped (example_outputJax ())
            else jax_typeset (example_outputJax ())) () (example_item\<lparr>display := None\<rparr>) =
           (Inr ''escaped-output'', example_item\<lparr>display := None\<rparr>)"
    by (simp add: example_outputJax_def)
  show ?thesis
    using typeset_selects_entry [where it = example_item and oj = example_outputJax
        and doc = "()" and el = "''typeset-output''"
        and ?it1.0 = "example_item\<lparr>bbox := [''w'' \<mapsto> ''1.2'']\<rparr>" and rm = marking_remove,
        OF a(1) b]
      typeset_selects_entry [where it = "example_item\<lparr>display := None\<rparr>"
        and oj = example_outputJax and doc = "()" and el = "''escaped-output''"
        and ?it1.0 = "example_item\<lparr>display := None\<rparr>" and rm = marking_remove,
        OF a(2) c]
      a
    by simp
qed

subsection \<open>The methods that the abstract class leaves empty\<close>

text \<open>
  Claim C6, as stated: after a successful \<open>updateDocument\<close> on an item whose state is at
  least TYPESET the state is INSERTED, and below TYPESET the call fails.  The method of
  the class has an empty body.  On \<open>typeset_item\<close>, in state TYPESET, it returns and the
  state is still TYPESET; on \<open>example_item\<close>, in state UNPROCESSED, it returns as well.
\<close>

theorem updateDocument_counterexample:
  "TYPESET \<le> item_state typeset_item
   \<and> fst (updateDocument () typeset_item) = (Inr () :: string + unit)
   \<and> item_state (snd (updateDocument () typeset_item :: (string + unit) \<times> _)) \<noteq> INSERTED
   \<and> item_state example_item < TYPESET
   \<and> fst (updateDocument () example_item) = (Inr () :: string + unit)"
  by (simp add: updateDocument_def item_defs STATE_defs)

text \<open>
  Claim C6, amended: \<open>updateDocument\<close>, as the abstract class defines it, returns in every
  state, below TYPESET too, and leaves the item, its state included, as it was.
\<close>

theorem updateDocument_does_nothing:
  "updateDocument document it = (Inr (), it)
   \<and> item_state (snd (updateDocument document it)) = item_state it"
  by (simp add: updateDocument_def)

text \<open>
  Claim C7, as stated: after \<open>removeFromDocument\<close> the state is below INSERTED.  On
  \<open>inserted_item\<close> the method returns and the state is still INSERTED.
\<close>

theorem removeFromDocument_counterexample:
  "item_state inserted_item = INSERTED
   \<and> fst (removeFromDocument True inserted_item) = (Inr () :: string + unit)
   \<and> \<not> item_state (snd (removeFromDocument True inserted_item :: (string + unit) \<times> _))
         < INSERTED"
  by (simp add: removeFromDocument_def item_defs STATE_defs)

text \<open>
  Claim C7, amended: \<open>removeFromDocument\<close>, as the abstract class defines it, returns and
  leaves the item, its state included, as it was, for either value of \<open>restore\<close>; the state
  is below INSERTED afterwards exactly when it was before.  It is \<open>state\<close> that lowers the
  state.  Called with a target below INSERTED on an item whose state is at least INSERTED,
  it calls \<^verbatim>\<open>removeFromDocument(restore)\<close> first, whichever method that call reaches, and
  when that method has returned it runs the two other guards on the item the method left
  and stores the target: the call returns the target, and the state is the target, below
  INSERTED.  On an item whose state is below INSERTED already the method is not called:
  the result is the same for every method.  With the method of the abstract class the
  call always returns, with the state at the target.
\<close>

theorem removeFromDocument_does_nothing:
  "removeFromDocument restore it = (Inr () :: 'err + unit, it)
   \<and> (item_state (snd (removeFromDocument restore it :: ('err + unit) \<times> _)) < INSERTED \<longleftrightarrow>
        item_state it < INSERTED)
   \<and> (s < INSERTED \<longrightarrow> INSERTED \<le> item_state it \<longrightarrow> rm restore it = (Inr u, it1) \<longrightarrow>
        state rm (Some s) restore it =
          (Inr s :: 'err + int, it1\<lparr>item_state := s,
             bbox := if s < TYPESET \<and> TYPESET \<le> item_state it1 then Map.empty else bbox it1,
             outputData := if s < TYPESET \<and> TYPESET \<le> item_state it1 then Map.empty
                           else outputData it1,
             inputData := if s < COMPILED \<and> COMPILED \<le> item_state it1 then Map.empty
                          else inputData it1\<rparr>)
        \<and> item_state (snd (state rm (Some s) restore it)) = s
        \<and> item_state (snd (state rm (Some s) restore it)) < INSERTED)
   \<and> (s < INSERTED \<longrightarrow> INSERTED \<le> item_state it \<longrightarrow> rm restore it = (Inl e, it1) \<longrightarrow>
        state rm (Some s) restore it = (Inl e :: 'err + int, it1))
   \<and> (item_state it < INSERTED \<longrightarrow>
        state rm (Some s) restore it =
          (Inr s :: 'err + int, it\<lparr>item_state := s,
             bbox := if s < TYPESET \<and> TYPESET \<le> item_state it then Map.empty else bbox it,
             outputData := if s < TYPESET \<and> TYPESET \<le> item_state it then Map.empty
                           else outputData it,
             inputData := if s < COMPILED \<and> COMPILED \<le> item_state it then Map.empty
                          else inputData it\<rparr>))
   \<and> (s < INSERTED \<longrightarrow>
        fst (state removeFromDocument (Some s) restore it) = (Inr s :: 'err + int)
        \<and> item_state (snd (state removeFromDocument (Some s) restore it
              :: ('err + int) \<times> _)) = s)"
proof (intro conjI impI)
  show "removeFromDocument restore it = (Inr (), it)"
    by (simp add: removeFromDocument_def)
  show "item_state (snd (removeFromDocument restore it :: ('err + unit) \<times> _)) < INSERTED \<longleftrightarrow>
      item_state it < INSERTED"
    by (simp add: removeFromDocument_def)
next
  assume g: "s < INSERTED" "INSERTED \<le> item_state it" and h: "rm restore it = (Inr u, it1)"
  from g have g': "s < INSERTED \<and> INSERTED \<le> item_state it" by simp
  show eq: "state rm (Some s) restore it =
          (Inr s, it1\<lparr>item_state := s,
             bbox := if s < TYPESET \<and> TYPESET \<le> item_state it1 then Map.empty else bbox it1,
             outputData := if s < TYPESET \<and> TYPESET \<le> item_state it1 then Map.empty
                           else outputData it1,
             inputData := if s < COMPILED \<and> COMPILED \<le> item_state it1 then Map.empty
                          else inputData it1\<rparr>)"
    by (simp only: state_Some if_P [OF g'] h prod.case sum.case)
  show "item_state (snd (state rm (Some s) restore it)) = s"
    by (simp only: eq snd_conv) simp
  then show "item_state (snd (state rm (Some s) restore it)) < INSERTED"
    using g(1) by simp
next
  assume g: "s < INSERTED" "INSERTED \<le> item_state it" and h: "rm restore it = (Inl e, it1)"
  from g have g': "s < INSERTED \<and> INSERTED \<le> item_state it" by simp
  show "state rm (Some s) restore it = (Inl e, it1)"
    by (simp only: state_Some if_P [OF g'] h prod.case sum.case)
next
  assume "item_state it < INSERTED"
  then have "\<not> (s < INSERTED \<and> INSERTED \<le> item_state it)" by simp
  then show "state rm (Some s) restore it =
          (Inr s, it\<lparr>item_state := s,
             bbox := if s < TYPESET \<and> TYPESET \<le> item_state it then Map.empty else bbox it,
             outputData := if s < TYPESET \<and> TYPESET \<le> item_state it then Map.empty
                           else outputData it,
             inputData := if s < COMPILED \<and> COMPILED \<le> item_state it then Map.empty
                          else inputData it\<rparr>)"
    by (rule state_Some_skip)
next
  assume "s < INSERTED"
  show "fst (state removeFromDocument (Some s) restore it) = (Inr s :: 'err + int)"
    by (simp only: state_base fst_conv)
  show "item_state (snd (state removeFromDocument (Some s) restore it
      :: ('err + int) \<times> _)) = s"
    by (simp only: state_base snd_conv) simp
qed

theorem removeFromDocument_does_nothing_witness:
  "removeFromDocument True inserted_item = (Inr () :: string + unit, inserted_item)
   \<and> TYPESET < INSERTED \<and> INSERTED \<le> item_state inserted_item
   \<and> marking_remove True inserted_item =
       (Inr (), inserted_item\<lparr>outputData :=
          [''font'' \<mapsto> ''TeX'', ''removed'' \<mapsto> ''restored'']\<rparr>)
   \<and> state marking_remove (Some TYPESET) True inserted_item =
       (Inr TYPESET, typeset_item\<lparr>outputData :=
          [''font'' \<mapsto> ''TeX'', ''removed'' \<mapsto> ''restored'']\<rparr>)
   \<and> failing_remove True inserted_item = (Inl ''detached'', inserted_item)
   \<and> state failing_remove (Some TYPESET) True inserted_item =
       (Inl ''detached'', inserted_item)
   \<and> item_state typeset_item < INSERTED
   \<and> state marking_remove (Some COMPILED) True typeset_item =
       (Inr COMPILED, typeset_item\<lparr>item_state := COMPILED, bbox := Map.empty,
          outputData := Map.empty\<rparr>)
   \<and> state removeFromDocument (Some TYPESET) True inserted_item =
       (Inr TYPESET :: string + int, typeset_item)"
  using removeFromDocument_does_nothing [where ?'err = string, where restore = True
      and it = inserted_item and s = TYPESET and rm = marking_remove and u = "()"
      and ?it1.0 = "inserted_item\<lparr>outputData :=
          [''font'' \<mapsto> ''TeX'', ''removed'' \<mapsto> ''restored'']\<rparr>"
      and e = "''detached''"]
    removeFromDocument_does_nothing [where ?'err = string, where restore = True
      and it = inserted_item and s = TYPESET and rm = failing_remove and u = "()"
      and ?it1.0 = inserted_item and e = "''detached''"]
    removeFromDocument_does_nothing [where ?'err = string, where restore = True
      and it = typeset_item and s = COMPILED and rm = marking_remove and u = "()"
      and ?it1.0 = typeset_item and e = "''detached''"]
  by (simp add: item_defs STATE_defs state_def removeFromDocument_def marking_remove_def
      failing_remove_def)

subsection \<open>Proto items\<close>

text \<open>
  Claim C8.  \<open>protoItem\<close> returns, for all arguments, an item whose \<open>open\<close>, \<open>math\<close>,
  \<open>close\<close> and \<open>n\<close> fields are the arguments, whose \<open>display\<close> field is the argument when
  one is given and \<^verbatim>\<open>null\<close> when it is omitted, and whose \<open>start\<close> and \<open>end\<close> are
  \<^verbatim>\<open>{n: start}\<close> and \<^verbatim>\<open>{n: end}\<close>.  The offsets are any integers: nothing is checked.
\<close>

theorem protoItem_fields:
  "proto_open (protoItem opn math' cls n' start' end' display') = Some opn
   \<and> proto_math (protoItem opn math' cls n' start' end' display') = math'
   \<and> proto_close (protoItem opn math' cls n' start' end' display') = Some cls
   \<and> proto_n (protoItem opn math' cls n' start' end' display') = Some n'
   \<and> proto_start (protoItem opn math' cls n' start' end' display') =
       \<lparr>loc_i = None, loc_n = Some start', delim = None, node = None\<rparr>
   \<and> proto_end (protoItem opn math' cls n' start' end' display') =
       \<lparr>loc_i = None, loc_n = Some end', delim = None, node = None\<rparr>
   \<and> proto_display (protoItem opn math' cls n' start' end' (Given d)) = d
   \<and> proto_display (protoItem opn math' cls n' start' end' Omitted) = None"
  by (simp add: protoItem_def)

section \<open>Properties of TexError\<close>

text \<open>
  Claim C10.  For an input array with fewer than two elements the constructor sets
  \<open>message\<close> to the empty string and leaves \<open>id\<close> unset.  For an array with at least two
  elements it sets \<open>id\<close> to \<^verbatim>\<open>input[0]\<close> and \<open>message\<close> to
  \<^verbatim>\<open>processString(input[1], input.slice(2))\<close>.
\<close>

theorem TexError_constructor:
  "(length input < 2 \<longrightarrow>
      message (new_TexError input) = [] \<and> tex_id (new_TexError input) = None)
   \<and> (2 \<le> length input \<longrightarrow>
        tex_id (new_TexError input) = Some (input ! 0)
        \<and> message (new_TexError input) = processString (input ! 1) (drop 2 input))
   \<and> new_TexError (x # y # rest) = \<lparr>tex_id = Some x, message = processString y rest\<rparr>"
  by (simp add: new_TexError_def)

theorem TexError_constructor_witness:
  "length [''MissingArgFor''] < 2
   \<and> new_TexError [''MissingArgFor''] = \<lparr>tex_id = None, message = []\<rparr>
   \<and> 2 \<le> length [''MissingArgFor'', ''Missing argument for %1'', ''frac'']
   \<and> new_TexError [''MissingArgFor'', ''Missing argument for %1'', ''frac''] =
       \<lparr>tex_id = Some ''MissingArgFor'', message = ''Missing argument for frac''\<rparr>"
proof -
  have e: "processString ''Missing argument for %1'' [''frac''] = ''Missing argument for frac''"
    by code_simp
  show ?thesis
    using TexError_constructor [of "[''MissingArgFor'']" "''a''" "''b''" "[]"]
      TexError_constructor [of "[''MissingArgFor'', ''Missing argument for %1'', ''frac'']"
        "''MissingArgFor''" "''Missing argument for %1''" "[''frac'']"]
      e
    by simp
qed

end
